theory Spec2Isabelle
  imports Main
begin

section \<open>Values, user functions and errors\<close>

text \<open>
  The JavaScript values that reach the queue: \<open>undefined\<close> (also an omitted argument),
  \<open>null\<close>, booleans, strings and references to plain host objects. Numbers are left out:
  the documented type of an event name is String.
\<close>

type_synonym objref = nat

datatype val = JUndefined | JNull | JBool bool | JStr string | JRef objref

text \<open>\<open>!v\<close> is true exactly for the falsy values.\<close>

fun falsy :: "val \<Rightarrow> bool" where
  "falsy JUndefined = True"
| "falsy JNull = True"
| "falsy (JBool b) = (\<not> b)"
| "falsy (JStr s) = (s = [])"
| "falsy (JRef r) = False"

text \<open>The property key a value denotes in \<open>obj[v]\<close> and \<open>obj.hasOwnProperty(v)\<close>.\<close>

fun to_key :: "val \<Rightarrow> string" where
  "to_key JUndefined = ''undefined''"
| "to_key JNull = ''null''"
| "to_key (JBool b) = (if b then ''true'' else ''false'')"
| "to_key (JStr s) = s"
| "to_key (JRef r) = ''[object Object]''"

datatype error = TypeError | Thrown string

text \<open>
  The object built by \<open>E.prototype.constructor\<close>: the three fields it assigns. The flags
  are not fields of the object; they are the variables \<open>prevent\<close> and \<open>halt\<close> of the
  enclosing function, kept in the state below.
\<close>

record event =
  name :: val
  target :: val
  data :: val

text \<open>
  Functions supplied by the caller (listeners, the values of \<open>defaults\<close>). A function has
  an identity and a body that may call \<open>preventDefault()\<close> and \<open>halt()\<close> on its first
  argument and may throw; it returns \<open>undefined\<close>. Every call is logged with its receiver
  and its first argument.
\<close>

datatype action = PreventDefault | Halt | Throw string

datatype ufun = UFun nat "action list"

datatype arg = AEvent event | AVal val

datatype call = Call nat val arg

text \<open>
  The closure pushed by \<open>addListener\<close>: it captures \<open>listener\<close> and \<open>next\<close>, where
  \<open>next\<close> is an earlier closure or \<open>false\<close> (\<open>None\<close>).
\<close>

datatype link = Link ufun "link option"

text \<open>
  A plain object passed as \<open>defaults\<close>: its identity and its own enumerable properties in
  enumeration order.
\<close>

datatype dobj = DObj objref "(string \<times> ufun) list"

section \<open>The state shared by the closures\<close>

text \<open>
  \<open>listeners\<close>, \<open>defListeners\<close> and \<open>object\<close> are the variables of the function that
  builds \<open>SimpleEventQ\<close>; \<open>prevent\<close> and \<open>halt\<close> those of the function that initialises
  \<open>Event\<close>. \<open>listeners\<close> holds the own properties of the object; \<open>listeners_proto\<close> is
  \<open>Some q\<close> once \<open>listeners["__proto__"] = q\<close> has replaced its prototype by the array
  \<open>q\<close>. A value of \<open>defListeners\<close> is the closure made by \<open>addDefault\<close>, given by the
  \<open>listener\<close> it captured. \<open>methods\<close> are the host objects that carry \<open>on\<close>, \<open>off\<close>
  and \<open>trigger\<close>; \<open>trace\<close> is the log of calls to user functions.
\<close>

record state =
  listeners :: "string \<rightharpoonup> link list"
  listeners_proto :: "link list option"
  defListeners :: "string \<rightharpoonup> dobj"
  object :: val
  prevent :: bool
  halt :: bool
  methods :: "objref set"
  trace :: "call list"

definition init :: state where
  "init = \<lparr> listeners = Map.empty, listeners_proto = None, defListeners = Map.empty,
            object = JNull, prevent = False, halt = False, methods = {}, trace = [] \<rparr>"

type_synonym 'a result = "(error + 'a) \<times> state"

section \<open>Calling user functions\<close>

fun run_action :: "action \<Rightarrow> arg \<Rightarrow> state \<Rightarrow> unit result" where
  "run_action PreventDefault (AEvent e) s = (Inr (), s\<lparr>prevent := True\<rparr>)"
| "run_action PreventDefault (AVal v) s = (Inl TypeError, s)"
| "run_action Halt (AEvent e) s = (Inr (), s\<lparr>halt := True\<rparr>)"
| "run_action Halt (AVal v) s = (Inl TypeError, s)"
| "run_action (Throw x) a s = (Inl (Thrown x), s)"

fun run_body :: "action list \<Rightarrow> arg \<Rightarrow> state \<Rightarrow> unit result" where
  "run_body [] a s = (Inr (), s)"
| "run_body (x # xs) a s =
     (case run_action x a s of
        (Inl err, s1) \<Rightarrow> (Inl err, s1)
      | (Inr u, s1) \<Rightarrow> run_body xs a s1)"

fun call_ufun :: "ufun \<Rightarrow> val \<Rightarrow> arg \<Rightarrow> state \<Rightarrow> unit result" where
  "call_ufun (UFun i body) this a s = run_body body a (s\<lparr>trace := trace s @ [Call i this a]\<rparr>)"

section \<open>removeListeners and addListener\<close>

text \<open>
  \<open>listeners.hasOwnProperty(event)\<close>: an own property named \<open>hasOwnProperty\<close> (an array)
  shadows the inherited method, and calling an array raises.
\<close>

definition listeners_hasOwnProperty :: "val \<Rightarrow> state \<Rightarrow> error + bool" where
  "listeners_hasOwnProperty event s =
     (case listeners s ''hasOwnProperty'' of
        Some arr \<Rightarrow> Inl TypeError
      | None \<Rightarrow> Inr (listeners s (to_key event) \<noteq> None))"

definition removeListeners :: "val \<Rightarrow> state \<Rightarrow> unit result" where
  "removeListeners event s =
     (if falsy event then (Inr (), s\<lparr>listeners := Map.empty, listeners_proto := None\<rparr>)
      else (case listeners_hasOwnProperty event s of
              Inl err \<Rightarrow> (Inl err, s)
            | Inr own \<Rightarrow>
                if own then (Inr (), s\<lparr>listeners := (listeners s)(to_key event := None)\<rparr>)
                else (Inr (), s)))"

text \<open>
  \<open>listeners[k] = q\<close>. The key \<open>__proto__\<close> is the accessor inherited from
  \<open>Object.prototype\<close>: the assignment replaces the prototype and creates no own property.
\<close>

definition listeners_put :: "string \<Rightarrow> link list \<Rightarrow> state \<Rightarrow> state" where
  "listeners_put k q s =
     (if k = ''__proto__'' then s\<lparr>listeners_proto := Some q\<rparr>
      else s\<lparr>listeners := (listeners s)(k \<mapsto> q)\<rparr>)"

text \<open>
  \<open>q\<close> is assigned only when the name has no own property yet; otherwise it stays
  \<open>undefined\<close> (\<open>None\<close>) and reading \<open>q.length\<close> raises. \<open>q.push\<close> writes through the
  alias to the array just stored, so the store is repeated with the longer array.
\<close>

definition addListener :: "val \<Rightarrow> ufun \<Rightarrow> state \<Rightarrow> unit result" where
  "addListener event listener s =
     (case listeners_hasOwnProperty event s of
        Inl err \<Rightarrow> (Inl err, s)
      | Inr own \<Rightarrow>
          (let (q, s1) = (if \<not> own then (Some [], listeners_put (to_key event) [] s)
                          else (None, s))
           in case q of
                None \<Rightarrow> (Inl TypeError, s1)
              | Some arr \<Rightarrow>
                  (let next = (if length arr \<noteq> 0 then Some (last arr) else None)
                   in (Inr (), listeners_put (to_key event) (arr @ [Link listener next]) s1))))"

section \<open>The closures that are invoked on dispatch\<close>

text \<open>
  The body of the closure pushed by \<open>addListener\<close>:
  \<open>listener.apply(object, [e]); if (!e.isHalted() && next) next.apply(object, [e]);\<close>.
  \<open>object\<close> is read when the closure runs.
\<close>

fun call_link :: "link \<Rightarrow> event \<Rightarrow> state \<Rightarrow> unit result" where
  "call_link (Link listener next) e s =
     (case call_ufun listener (object s) (AEvent e) s of
        (Inl err, s1) \<Rightarrow> (Inl err, s1)
      | (Inr u, s1) \<Rightarrow>
          (case next of
             None \<Rightarrow> (Inr (), s1)
           | Some n \<Rightarrow> if \<not> halt s1 then call_link n e s1 else (Inr (), s1)))"

text \<open>
  The body of the closure stored by \<open>addDefault\<close>: \<open>listener.apply(object, [e])\<close>, where
  \<open>listener\<close> is what the constructor passed: the \<open>defaults\<close> object itself. A plain
  object has an \<open>apply\<close> only as an own property; that function then runs with the
  object as receiver and \<open>object\<close> as its first argument.
\<close>

fun call_default :: "dobj \<Rightarrow> state \<Rightarrow> unit result" where
  "call_default (DObj r props) s =
     (case map_of props ''apply'' of
        None \<Rightarrow> (Inl TypeError, s)
      | Some g \<Rightarrow> call_ufun g (JRef r) (AVal (object s)) s)"

section \<open>Event\<close>

text \<open>
  \<open>var Event = (function () { ... function E () { ... } }());\<close> The function body
  declares \<open>E\<close> and returns nothing, so \<open>Event\<close> holds \<open>undefined\<close> (\<open>None\<close>), and
  \<open>new Event(...)\<close> raises.
\<close>

datatype ctor = E

definition Event :: "ctor option" where
  "Event = None"

definition new_Event :: "val \<Rightarrow> val \<Rightarrow> val \<Rightarrow> error + event" where
  "new_Event ev obj d =
     (case Event of
        None \<Rightarrow> Inl TypeError
      | Some E \<Rightarrow> Inr \<lparr> name = ev, target = obj, data = d \<rparr>)"

section \<open>fireEvent\<close>

text \<open>
  \<open>listeners.length - 1\<close> as an array index, \<open>None\<close> for \<open>NaN\<close>. \<open>listeners.length\<close>
  is an own property (the array registered under the name \<open>length\<close>, which converts to
  0 when empty and to \<open>NaN\<close> otherwise), or the length of the array installed as
  prototype, or \<open>undefined\<close>.
\<close>

definition listeners_length_minus_1 :: "state \<Rightarrow> int option" where
  "listeners_length_minus_1 s =
     (case listeners s ''length'' of
        Some arr \<Rightarrow> (if arr = [] then Some (- 1) else None)
      | None \<Rightarrow>
          (case listeners_proto s of
             Some arr \<Rightarrow> Some (int (length arr) - 1)
           | None \<Rightarrow> None))"

text \<open>\<open>arr[i]\<close>: \<open>undefined\<close> (\<open>None\<close>) unless \<open>i\<close> is an index of the array.\<close>

definition element :: "link list \<Rightarrow> int option \<Rightarrow> link option" where
  "element arr i =
     (case i of
        None \<Rightarrow> None
      | Some j \<Rightarrow> if 0 \<le> j \<and> j < int (length arr) then Some (arr ! nat j) else None)"

text \<open>The first \<open>if\<close> of \<open>fireEvent\<close>. An own property of \<open>listeners\<close> is always an array.\<close>

definition fire_listeners :: "val \<Rightarrow> event \<Rightarrow> state \<Rightarrow> unit result" where
  "fire_listeners event e s =
     (case listeners_hasOwnProperty event s of
        Inl err \<Rightarrow> (Inl err, s)
      | Inr own \<Rightarrow>
          (case listeners s (to_key event) of
             None \<Rightarrow> (Inr (), s)
           | Some arr \<Rightarrow>
               if own \<and> length arr > 0 then
                 (case element arr (listeners_length_minus_1 s) of
                    None \<Rightarrow> (Inl TypeError, s)
                  | Some f \<Rightarrow> call_link f e s)
               else (Inr (), s)))"

text \<open>
  \<open>defListeners.hasOwnProperty(event)\<close>. Were a closure stored under the name
  \<open>hasOwnProperty\<close>, it would be called instead of the inherited method and return
  \<open>undefined\<close>.
\<close>

definition defListeners_hasOwnProperty :: "val \<Rightarrow> state \<Rightarrow> bool result" where
  "defListeners_hasOwnProperty event s =
     (case defListeners s ''hasOwnProperty'' of
        None \<Rightarrow> (Inr (defListeners s (to_key event) \<noteq> None), s)
      | Some w \<Rightarrow>
          (case call_default w s of
             (Inl err, s1) \<Rightarrow> (Inl err, s1)
           | (Inr u, s1) \<Rightarrow> (Inr False, s1)))"

text \<open>The second \<open>if\<close> of \<open>fireEvent\<close>.\<close>

definition fire_default :: "val \<Rightarrow> event \<Rightarrow> state \<Rightarrow> unit result" where
  "fire_default event e s =
     (if \<not> prevent s \<and> \<not> halt s then
        (case defListeners_hasOwnProperty event s of
           (Inl err, s1) \<Rightarrow> (Inl err, s1)
         | (Inr own, s1) \<Rightarrow>
             if own then
               (case defListeners s1 (to_key event) of
                  None \<Rightarrow> (Inl TypeError, s1)
                | Some w \<Rightarrow> call_default w s1)
             else (Inr (), s1))
      else (Inr (), s))"

definition fireEvent :: "val \<Rightarrow> val \<Rightarrow> state \<Rightarrow> unit result" where
  "fireEvent event d s =
     (case new_Event event (object s) d of
        Inl err \<Rightarrow> (Inl err, s)
      | Inr e \<Rightarrow>
          (case fire_listeners event e s of
             (Inl err, s1) \<Rightarrow> (Inl err, s1)
           | (Inr u, s1) \<Rightarrow> fire_default event e s1))"

section \<open>The constructor and the methods\<close>

text \<open>
  \<open>defListeners[event] = function (e) { ... }\<close>; as for \<open>listeners\<close>, the key
  \<open>__proto__\<close> creates no own property.
\<close>

definition addDefault :: "string \<Rightarrow> dobj \<Rightarrow> state \<Rightarrow> state" where
  "addDefault event listener s =
     (if event = ''__proto__'' then s
      else s\<lparr>defListeners := (defListeners s)(event \<mapsto> listener)\<rparr>)"

text \<open>
  \<open>defaults.hasOwnProperty(prop)\<close>: an own property of that name is a user function,
  called with the property name; it returns \<open>undefined\<close>.
\<close>

fun defaults_hasOwnProperty :: "dobj \<Rightarrow> string \<Rightarrow> state \<Rightarrow> bool result" where
  "defaults_hasOwnProperty (DObj r props) prop s =
     (case map_of props ''hasOwnProperty'' of
        None \<Rightarrow> (Inr (map_of props prop \<noteq> None), s)
      | Some f \<Rightarrow>
          (case call_ufun f (JRef r) (AVal (JStr prop)) s of
             (Inl err, s1) \<Rightarrow> (Inl err, s1)
           | (Inr u, s1) \<Rightarrow> (Inr False, s1)))"

text \<open>The \<open>for (var prop in defaults)\<close> loop, over the remaining property names.\<close>

fun install_defaults :: "dobj \<Rightarrow> string list \<Rightarrow> state \<Rightarrow> unit result" where
  "install_defaults defaults [] s = (Inr (), s)"
| "install_defaults defaults (prop # rest) s =
     (case defaults_hasOwnProperty defaults prop s of
        (Inl err, s1) \<Rightarrow> (Inl err, s1)
      | (Inr own, s1) \<Rightarrow>
          install_defaults defaults rest (if own then addDefault prop defaults s1 else s1))"

fun keys :: "dobj \<Rightarrow> string list" where
  "keys (DObj r props) = map fst props"

text \<open>
  \<open>SimpleEventQ.prototype.constructor\<close>, run by \<open>new SimpleEventQ(defaults, listenTo)\<close>
  on the new object \<open>this\<close>. Assigning a property to a primitive raises in strict mode.
  \<open>defaults\<close> is \<open>None\<close> when \<open>undefined\<close>: the loop then has nothing to enumerate.
\<close>

definition SimpleEventQ :: "objref \<Rightarrow> dobj option \<Rightarrow> val \<Rightarrow> state \<Rightarrow> unit result" where
  "SimpleEventQ this defaults listenTo s =
     (let s1 = s\<lparr>object := (if falsy listenTo then JRef this else listenTo)\<rparr>
      in case object s1 of
           JRef r \<Rightarrow>
             (let s2 = s1\<lparr>methods := insert r (methods s1)\<rparr>
              in case defaults of
                   None \<Rightarrow> (Inr (), s2)
                 | Some d \<Rightarrow> install_defaults d (keys d) s2)
         | JUndefined \<Rightarrow> (Inl TypeError, s1)
         | JNull \<Rightarrow> (Inl TypeError, s1)
         | JBool b \<Rightarrow> (Inl TypeError, s1)
         | JStr x \<Rightarrow> (Inl TypeError, s1))"

text \<open>\<open>getParent\<close> is shared through the prototype; it does not look at its receiver.\<close>

definition getParent :: "objref \<Rightarrow> state \<Rightarrow> val" where
  "getParent this s = object s"

text \<open>The three functions assigned to the target; each ends with \<open>return this\<close>.\<close>

definition on :: "val \<Rightarrow> val \<Rightarrow> ufun \<Rightarrow> state \<Rightarrow> val result" where
  "on this event listener s =
     (case addListener event listener s of
        (Inl err, s1) \<Rightarrow> (Inl err, s1)
      | (Inr u, s1) \<Rightarrow> (Inr this, s1))"

definition off :: "val \<Rightarrow> val \<Rightarrow> state \<Rightarrow> val result" where
  "off this event s =
     (case removeListeners event s of
        (Inl err, s1) \<Rightarrow> (Inl err, s1)
      | (Inr u, s1) \<Rightarrow> (Inr this, s1))"

definition trigger :: "val \<Rightarrow> val \<Rightarrow> val \<Rightarrow> state \<Rightarrow> val result" where
  "trigger this event d s =
     (case fireEvent event d s of
        (Inl err, s1) \<Rightarrow> (Inl err, s1)
      | (Inr u, s1) \<Rightarrow> (Inr this, s1))"

text \<open>
  The method calls \<open>r.on(...)\<close>, \<open>r.off(...)\<close>, \<open>r.trigger(...)\<close> on a host object: the
  property is a function only where a constructor call attached it.
\<close>

definition send_on :: "objref \<Rightarrow> val \<Rightarrow> ufun \<Rightarrow> state \<Rightarrow> val result" where
  "send_on r event listener s =
     (if r \<in> methods s then on (JRef r) event listener s else (Inl TypeError, s))"

definition send_off :: "objref \<Rightarrow> val \<Rightarrow> state \<Rightarrow> val result" where
  "send_off r event s =
     (if r \<in> methods s then off (JRef r) event s else (Inl TypeError, s))"

definition send_trigger :: "objref \<Rightarrow> val \<Rightarrow> val \<Rightarrow> state \<Rightarrow> val result" where
  "send_trigger r event d s =
     (if r \<in> methods s then trigger (JRef r) event d s else (Inl TypeError, s))"

section \<open>General facts\<close>

lemmas queue_defs =
  init_def SimpleEventQ_def send_on_def send_off_def send_trigger_def on_def off_def
  trigger_def addListener_def removeListeners_def listeners_hasOwnProperty_def
  listeners_put_def fireEvent_def new_Event_def Event_def addDefault_def getParent_def

text \<open>No event object can be built, so every dispatch stops before its first test.\<close>

lemma new_Event_raises: "new_Event ev obj d = Inl TypeError"
  by (simp add: new_Event_def Event_def)

lemma fireEvent_raises: "fireEvent event d s = (Inl TypeError, s)"
  by (simp add: fireEvent_def new_Event_raises)

lemma trigger_raises: "trigger this event d s = (Inl TypeError, s)"
  by (simp add: trigger_def fireEvent_raises)

text \<open>\<open>removeListeners\<close> writes to \<open>listeners\<close> only.\<close>

lemma removeListeners_frame:
  "defListeners (snd (removeListeners event s)) = defListeners s \<and>
   object (snd (removeListeners event s)) = object s \<and>
   trace (snd (removeListeners event s)) = trace s"
  by (simp add: removeListeners_def split: sum.splits)

text \<open>
  With a name, \<open>removeListeners\<close> deletes that name's chain and nothing else, unless a
  chain is registered under the name \<open>hasOwnProperty\<close>: then the test itself raises.
\<close>

lemma removeListeners_named:
  "\<not> falsy event \<Longrightarrow> listeners s ''hasOwnProperty'' = None \<Longrightarrow>
   removeListeners event s = (Inr (), s\<lparr>listeners := (listeners s)(to_key event := None)\<rparr>)"
  by (auto simp add: removeListeners_def listeners_hasOwnProperty_def fun_upd_idem)

lemma removeListeners_shadowed:
  "\<not> falsy event \<Longrightarrow> listeners s ''hasOwnProperty'' = Some arr \<Longrightarrow>
   removeListeners event s = (Inl TypeError, s)"
  by (simp add: removeListeners_def listeners_hasOwnProperty_def)

text \<open>\<open>on\<close>, \<open>off\<close> and \<open>trigger\<close> never assign \<open>object\<close>; only the constructor does.\<close>

lemma listeners_put_object: "object (listeners_put k q s) = object s"
  by (simp add: listeners_put_def)

lemma on_keeps_object: "object (snd (on this event listener s)) = object s"
  by (simp add: on_def addListener_def listeners_put_object split: sum.splits)

lemma off_keeps_object: "object (snd (off this event s)) = object s"
  by (simp add: off_def removeListeners_def split: sum.splits)

lemma trigger_keeps_object: "object (snd (trigger this event d s)) = object s"
  by (simp add: trigger_raises)

text \<open>A second registration under a name that has a chain raises and changes nothing.\<close>

lemma addListener_again:
  "listeners s ''hasOwnProperty'' = None \<Longrightarrow> listeners s (to_key event) = Some arr \<Longrightarrow>
   addListener event listener s = (Inl TypeError, s)"
  by (simp add: addListener_def listeners_hasOwnProperty_def)

text \<open>
  Every chain that \<open>addListener\<close> stores has one closure, with \<open>next\<close> false: \<open>q\<close>
  is the empty array whenever it is defined.
\<close>

lemma addListener_singleton:
  "addListener event listener s = (Inr u, s') \<Longrightarrow>
   s' = listeners_put (to_key event) [Link listener None] s"
  by (auto simp add: addListener_def listeners_put_def split: sum.splits if_splits)

text \<open>
  The flags belong to the state, not to an event: no function resets them, and once one
  is set the second test of \<open>fireEvent\<close> calls no default listener, whatever the event.
\<close>

lemma run_action_keeps_flags:
  "(prevent s \<longrightarrow> prevent (snd (run_action x a s))) \<and>
   (halt s \<longrightarrow> halt (snd (run_action x a s)))"
  by (cases x; cases a) simp_all

lemma run_body_keeps_flags:
  "(prevent s \<longrightarrow> prevent (snd (run_body xs a s))) \<and>
   (halt s \<longrightarrow> halt (snd (run_body xs a s)))"
proof (induction xs arbitrary: s)
  case Nil
  show ?case by simp
next
  case (Cons x xs)
  show ?case
  proof (cases "run_action x a s")
    case (Pair r s1)
    with run_action_keeps_flags [of s x a] Cons.IH [of s1] show ?thesis
      by (cases r) auto
  qed
qed

lemma fire_default_suppressed:
  "prevent s \<or> halt s \<Longrightarrow> fire_default event e s = (Inr (), s)"
  by (auto simp add: fire_default_def)

text \<open>
  Nothing in the closure pushed by \<open>addListener\<close> catches: an exception of its
  listener is the closure's own result, and \<open>next\<close> is not run.
\<close>

lemma call_link_passes_exception:
  "call_ufun listener (object s) (AEvent e) s = (Inl err, s1) \<Longrightarrow>
   call_link (Link listener next) e s = (Inl err, s1)"
  by simp

section \<open>The claims\<close>

text \<open>
  C1. A listener registered with \<open>on(n, L)\<close> is to be invoked exactly once by a later
  \<open>trigger(n, d)\<close>, with an event carrying \<open>n\<close>, the bound target and \<open>d\<close>. On a queue
  bound to itself, after \<open>on("a", L)\<close>, the call \<open>trigger("a", "d")\<close> raises a TypeError,
  the log of calls stays empty, and the index \<open>listeners.length - 1\<close> selects no element
  of the chain.
\<close>

theorem C1_registered_listener_not_invoked:
  "let s1 = snd (SimpleEventQ 0 None JUndefined init);
       s2 = snd (send_on 0 (JStr ''a'') (UFun 1 []) s1)
   in listeners s2 ''a'' = Some [Link (UFun 1 []) None] \<and>
      send_trigger 0 (JStr ''a'') (JStr ''d'') s2 = (Inl TypeError, s2) \<and>
      trace s2 = [] \<and>
      element [Link (UFun 1 []) None] (listeners_length_minus_1 s2) = None"
  by (simp add: queue_defs element_def listeners_length_minus_1_def)

text \<open>
  C2. With \<open>defaults = {greet: f}\<close> and no dynamic listener, \<open>trigger("greet", d)\<close> is to
  invoke \<open>f\<close>. The constructor stores under \<open>greet\<close> a closure over the \<open>defaults\<close>
  object instead of \<open>f\<close>; calling that closure raises, and \<open>trigger\<close> raises before it
  gets there: \<open>f\<close> is never called.
\<close>

theorem C2_default_handler_not_invoked:
  "let d = DObj 5 [(''greet'', UFun 1 [])];
       s1 = snd (SimpleEventQ 0 (Some d) JUndefined init)
   in defListeners s1 ''greet'' = Some d \<and>
      call_default d s1 = (Inl TypeError, s1) \<and>
      send_trigger 0 (JStr ''greet'') (JStr ''Ann'') s1 = (Inl TypeError, s1) \<and>
      trace s1 = []"
  by (simp add: queue_defs)

text \<open>
  C3. Two listeners \<open>A\<close> then \<open>B\<close> registered under one name are both to run once per
  \<open>trigger\<close>. The second \<open>on\<close> raises a TypeError and leaves the chain with \<open>A\<close> alone;
  the \<open>trigger\<close> that follows raises as well and calls neither.
\<close>

theorem C3_second_registration_raises:
  "let s1 = snd (SimpleEventQ 0 None JUndefined init);
       s2 = snd (send_on 0 (JStr ''a'') (UFun 1 []) s1)
   in send_on 0 (JStr ''a'') (UFun 2 []) s2 = (Inl TypeError, s2) \<and>
      listeners s2 ''a'' = Some [Link (UFun 1 []) None] \<and>
      send_trigger 0 (JStr ''a'') JUndefined s2 = (Inl TypeError, s2) \<and>
      trace s2 = []"
  by (simp add: queue_defs)

text \<open>
  C4. A \<open>preventDefault()\<close> in one \<open>trigger\<close> is not to suppress the default listener of
  a later \<open>trigger\<close>. With a default for \<open>n\<close> and a dynamic listener that calls
  \<open>preventDefault()\<close>: the first \<open>trigger("n")\<close> raises, the listener is removed with
  \<open>off("n")\<close>, and the second \<open>trigger("n")\<close>, in which nothing calls
  \<open>preventDefault()\<close>, raises too and calls no default listener.
\<close>

theorem C4_later_trigger_runs_no_default:
  "let d = DObj 5 [(''n'', UFun 1 [])];
       s1 = snd (SimpleEventQ 0 (Some d) JUndefined init);
       s2 = snd (send_on 0 (JStr ''n'') (UFun 2 [PreventDefault]) s1);
       s3 = snd (send_trigger 0 (JStr ''n'') JUndefined s2);
       s4 = snd (send_off 0 (JStr ''n'') s3)
   in send_trigger 0 (JStr ''n'') JUndefined s2 = (Inl TypeError, s2) \<and>
      defListeners s4 ''n'' \<noteq> None \<and> listeners s4 ''n'' = None \<and>
      \<not> prevent s4 \<and> \<not> halt s4 \<and>
      send_trigger 0 (JStr ''n'') JUndefined s4 = (Inl TypeError, s4) \<and>
      trace s4 = []"
  by (simp add: queue_defs)

text \<open>
  C5. After \<open>off(n)\<close> a \<open>trigger(n)\<close> is to call no dynamic listener and still the default
  listener of \<open>n\<close>. With a default and a dynamic listener for \<open>a\<close>: \<open>off("a")\<close> removes
  the chain and leaves \<open>defListeners\<close> as it was, and the \<open>trigger("a")\<close> that follows
  raises and calls nothing.
\<close>

theorem C5_default_not_invoked_after_off:
  "let d = DObj 5 [(''a'', UFun 1 [])];
       s1 = snd (SimpleEventQ 0 (Some d) JUndefined init);
       s2 = snd (send_on 0 (JStr ''a'') (UFun 2 []) s1);
       s3 = snd (send_off 0 (JStr ''a'') s2)
   in send_off 0 (JStr ''a'') s2 = (Inr (JRef 0), s3) \<and>
      listeners s3 ''a'' = None \<and> defListeners s3 = defListeners s2 \<and>
      defListeners s3 ''a'' = Some d \<and>
      send_trigger 0 (JStr ''a'') JUndefined s3 = (Inl TypeError, s3) \<and>
      trace s3 = []"
  by (simp add: queue_defs)

text \<open>
  C7. For a name with no chain and no default, \<open>trigger\<close> is to call nothing, change
  nothing and return the bound target. On a queue just built, \<open>trigger("x")\<close> calls
  nothing and changes nothing, but it raises a TypeError instead of returning.
\<close>

theorem C7_trigger_unknown_name_raises:
  "let s1 = snd (SimpleEventQ 0 None JUndefined init)
   in listeners s1 ''x'' = None \<and> defListeners s1 ''x'' = None \<and>
      getParent 0 s1 = JRef 0 \<and>
      send_trigger 0 (JStr ''x'') JUndefined s1 = (Inl TypeError, s1) \<and>
      fst (send_trigger 0 (JStr ''x'') JUndefined s1) \<noteq> Inr (JRef 0)"
  by (simp add: queue_defs)

text \<open>
  C8. The target of a queue is to be fixed at its construction, whatever other queues
  are built. After \<open>q0 = new SimpleEventQ(undefined, t10)\<close> and
  \<open>q1 = new SimpleEventQ(undefined, t11)\<close>, \<open>q0.getParent()\<close> is \<open>t11\<close>, and the
  closure registered through \<open>t10.on\<close>, when run, applies its listener to \<open>t11\<close>.
\<close>

theorem C8_second_queue_rebinds_first:
  "let s1 = snd (SimpleEventQ 0 None (JRef 10) init);
       s2 = snd (send_on 10 (JStr ''a'') (UFun 1 []) s1);
       s3 = snd (SimpleEventQ 1 None (JRef 11) s2);
       e = \<lparr> name = JStr ''a'', target = JRef 11, data = JUndefined \<rparr>
   in getParent 0 s2 = JRef 10 \<and> getParent 0 s3 = JRef 11 \<and>
      listeners s3 ''a'' = Some [Link (UFun 1 []) None] \<and>
      trace (snd (call_link (Link (UFun 1 []) None) e s3)) = [Call 1 (JRef 11) (AEvent e)]"
  by (simp add: queue_defs)

text \<open>
  C9. \<open>on\<close>, \<open>off\<close> and \<open>trigger\<close> are each to return the bound target. \<open>off\<close> and a
  first \<open>on\<close> do; \<open>trigger\<close> raises a TypeError instead, and so does an \<open>on\<close> for a
  name that already has a chain, so \<open>q.on("a", L).trigger("a")\<close> and
  \<open>q.on("a", L).on("a", M)\<close> both fail at the second call.
\<close>

theorem C9_trigger_and_repeated_on_do_not_return:
  "let s1 = snd (SimpleEventQ 0 None JUndefined init);
       s2 = snd (send_on 0 (JStr ''a'') (UFun 1 []) s1)
   in getParent 0 s1 = JRef 0 \<and>
      fst (send_off 0 (JStr ''b'') s1) = Inr (JRef 0) \<and>
      fst (send_on 0 (JStr ''a'') (UFun 1 []) s1) = Inr (JRef 0) \<and>
      fst (send_trigger 0 (JStr ''a'') JUndefined s2) = Inl TypeError \<and>
      fst (send_on 0 (JStr ''a'') (UFun 2 []) s2) = Inl TypeError"
  by (simp add: queue_defs)

text \<open>
  C10. \<open>off\<close> called with any falsy value, the empty string as much as an omitted
  argument, removes the chains of every event name, resets \<open>listeners\<close> to a fresh
  object, leaves the default listeners alone and returns its receiver: it behaves as
  \<open>off()\<close> does.
\<close>

theorem C10_off_falsy_clears_every_chain:
  "falsy event \<Longrightarrow>
   fst (off this event s) = Inr this \<and>
   listeners (snd (off this event s)) = Map.empty \<and>
   listeners_proto (snd (off this event s)) = None \<and>
   defListeners (snd (off this event s)) = defListeners s \<and>
   off this event s = off this JUndefined s"
  by (simp add: off_def removeListeners_def)

theorem C10_off_falsy_clears_every_chain_witness:
  "let s1 = snd (SimpleEventQ 0 None JUndefined init);
       s2 = snd (send_on 0 (JStr ''a'') (UFun 1 []) s1);
       s3 = snd (send_on 0 (JStr '''') (UFun 2 []) s2)
   in falsy (JStr '''') \<and>
      listeners s3 ''a'' = Some [Link (UFun 1 []) None] \<and>
      listeners s3 '''' = Some [Link (UFun 2 []) None] \<and>
      send_off 0 (JStr '''') s3 = off (JRef 0) (JStr '''') s3 \<and>
      fst (off (JRef 0) (JStr '''') s3) = Inr (JRef 0) \<and>
      listeners (snd (off (JRef 0) (JStr '''') s3)) = Map.empty \<and>
      off (JRef 0) (JStr '''') s3 = off (JRef 0) JUndefined s3"
proof -
  define s3 where "s3 = snd (send_on 0 (JStr '''') (UFun 2 [])
         (snd (send_on 0 (JStr ''a'') (UFun 1 [])
            (snd (SimpleEventQ 0 None JUndefined init)))))"
  have empty_string_falsy: "falsy (JStr '''')"
    by simp
  note cleared = C10_off_falsy_clears_every_chain [OF empty_string_falsy, of "JRef 0" s3]
  have before: "0 \<in> methods s3" "listeners s3 ''a'' = Some [Link (UFun 1 []) None]"
      "listeners s3 '''' = Some [Link (UFun 2 []) None]"
    by (simp_all add: s3_def init_def SimpleEventQ_def send_on_def on_def addListener_def
        listeners_hasOwnProperty_def listeners_put_def)
  show ?thesis
    unfolding Let_def s3_def [symmetric]
    using cleared before empty_string_falsy by (auto simp add: send_off_def)
qed

end
